theory Spec2Isabelle
  imports Main
begin

section \<open>Data model\<close>

text \<open>
  Values the effects pass along without reading them (the solution, the timezone, the
  shipment model, the request settings) are JSON values.
\<close>

datatype json =
    JNull
  | JBool bool
  | JNum int
  | JStr string
  | JArr "json list"
  | JObj "(string \<times> json) list"

text \<open>
  The domain records. The effects read \<open>id\<close> and \<open>ignore\<close> only; \<open>ignore\<close> is an
  optional boolean (\<open>None\<close> is JavaScript's \<open>undefined\<close>). The field names carry the
  record's name as a prefix, since \<open>id\<close> is a constant of HOL. A field name is a
  constant too, so a local variable of the source that shares its name with a field
  (\<open>scenario\<close>, \<open>solution\<close>, \<open>requestTime\<close>, \<open>selectedShipments\<close>, ...) is
  written with a prime.
\<close>

record shipment =
  shipment_id :: int
  shipment_ignore :: "bool option"
  shipment_rest :: json

record vehicle =
  vehicle_id :: int
  vehicle_ignore :: "bool option"
  vehicle_rest :: json

record vehicleOperator =
  vehicleOperator_id :: int
  vehicleOperator_rest :: json

record injectedSolutionConstraint =
  routes :: "json list option"
  constraint_rest :: json

record scenario =
  injectedSolutionConstraint :: "injectedSolutionConstraint option"
  scenario_rest :: json

text \<open>The payloads of the actions the effects dispatch.\<close>

record loadScenario_props =
  shipments :: "shipment list"
  vehicles :: "vehicle list"
  vehicleOperators :: "vehicleOperator list"
  visitRequests :: json
  selectedShipments :: "int list"
  selectedVehicles :: "int list"
  selectedVehicleOperators :: "int list"
  changeTime :: int

record setRequestSettings_props =
  firstSolutionRoutes :: json
  injectedModelConstraint :: json
  injectedSolution :: json
  label :: json
  searchMode :: json
  solvingMode :: json
  timeout :: json
  traffic :: json
  allowLargeDeadlineDespiteInterruptionRisk :: json
  interpretInjectedSolutionsUsingLabels :: json
  populateTransitionPolylines :: json
  useGeodesicDistances :: json
  geodesicMetersPerSecond :: json

record elapsedSolution =
  scenario :: scenario
  solution :: json
  elapsedTime :: int
  requestTime :: int
  timeOfResponse :: int

record applySolution_props =
  elapsedSolution :: elapsedSolution
  requestedShipmentIds :: "int list"
  requestedVehicleIds :: "int list"

datatype action =
    UploadActions_openCsvDialog
  | UploadActions_closeCsvDialog
  | UploadActions_openDialog
  | UploadActions_closeDialog
  | WelcomePageActions_openUploadDialog
  | ConfigActions_setTimezone json
  | DispatcherActions_uploadScenarioSuccess scenario
  | DispatcherActions_loadScenario loadScenario_props
  | DispatcherApiActions_applySolution applySolution_props
  | RequestSettingsActions_setRequestSettings setRequestSettings_props
  | ShipmentModelActions_setShipmentModel json

text \<open>
  What \<open>NormalizationService.normalizeScenario\<close> returns, with the fields the effects
  destructure.
\<close>

record normalization =
  firstSolutionRoutes :: json
  injectedModelConstraint :: json
  injectedSolution :: json
  label :: json
  searchMode :: json
  shipments :: "shipment list"
  shipmentModel :: json
  solvingMode :: json
  timeout :: json
  traffic :: json
  vehicles :: "vehicle list"
  vehicleOperators :: "vehicleOperator list"
  visitRequests :: json
  allowLargeDeadlineDespiteInterruptionRisk :: json
  interpretInjectedSolutionsUsingLabels :: json
  populateTransitionPolylines :: json
  useGeodesicDistances :: json
  geodesicMetersPerSecond :: json
  normalizedScenario :: scenario

text \<open>
  Modelled from the spec: \<open>NormalizationService\<close> is not among the sources. The spec
  calls normalization a deterministic, single-pass data transform of the uploaded
  scenario, and the effects call it with the scenario and a timestamp; so
  \<open>normalizeScenario\<close> is a parameter of this type wherever an effect calls it.
\<close>

type_synonym normalizeScenario_fn = "scenario \<Rightarrow> int \<Rightarrow> normalization"

text \<open>
  What the effects read of their surroundings and write to them: \<open>Date.now()\<close>, and the
  warnings handed to \<open>MessageService.warning\<close> (the message text; every call passes the
  same options).
\<close>

record world =
  now :: int
  warnings :: "string list"

definition warning :: "world \<Rightarrow> string \<Rightarrow> world" where
  "warning w message = w\<lparr>warnings := warnings w @ [message]\<rparr>"

text \<open>
  The result a dialog closes with; \<open>None\<close> is a falsy result (the dialog was
  cancelled).
\<close>

record csvDialogResult =
  timezone :: json
  scenario :: scenario

text \<open>
  Modelled from the spec: the declaration of \<open>UploadType\<close> is not among the sources.
  The upload dialog's result is \<open>{ uploadType, content }\<close> with \<open>content: any\<close>: the
  switch reads the content as a scenario for \<open>UploadType.Scenario\<close> and as
  \<open>{ scenario, solution }\<close> for \<open>UploadType.ScenarioSolutionPair\<close>; it has no default,
  so a result of any other upload type, \<open>OtherUploadType\<close>, falls through it.
\<close>

datatype uploadDialogResult =
    Scenario scenario
  | ScenarioSolutionPair scenario json
  | OtherUploadType json

section \<open>The upload effects\<close>

text \<open>JavaScript's \<open>!x\<close> on an optional boolean.\<close>

definition js_not :: "bool option \<Rightarrow> bool" where
  "js_not b = (case b of None \<Rightarrow> True | Some v \<Rightarrow> \<not> v)"

text \<open>
  \<open>normalizedScenario.injectedSolutionConstraint?.routes\<close> as a condition: an array is
  truthy, also when it is empty.
\<close>

definition injectedRoutes :: "scenario \<Rightarrow> bool" where
  "injectedRoutes s =
     (case injectedSolutionConstraint s of
        None \<Rightarrow> False
      | Some c \<Rightarrow> (case routes c of None \<Rightarrow> False | Some rs \<Rightarrow> True))"

definition scenario_warning :: string where
  "scenario_warning =
     ''The uploaded scenario contains injected routes, but no solution. These injected routes will be ignored by the application.''"

definition pair_warning :: string where
  "pair_warning =
     ''The uploaded scenario contains both injected routes and a solution. Only the solution will be considered for further injected iterations.''"

subsection \<open>openCsvDialog$\<close>

text \<open>The callback of \<open>mergeMap\<close>, run on the result the CSV dialog closed with.\<close>

definition openCsvDialog_mergeMap :: "csvDialogResult option \<Rightarrow> action list" where
  "openCsvDialog_mergeMap dialogResult =
     (case dialogResult of
        None \<Rightarrow> []
      | Some r \<Rightarrow>
          (let actions = [UploadActions_closeCsvDialog];
               actions = actions @ [ConfigActions_setTimezone (timezone r)];
               actions = actions @ [DispatcherActions_uploadScenarioSuccess (csvDialogResult.scenario r)]
           in actions))"

subsection \<open>openDialog$\<close>

definition openDialog_mergeMap ::
  "normalizeScenario_fn \<Rightarrow> world \<Rightarrow> uploadDialogResult option \<Rightarrow> action list \<times> world" where
  "openDialog_mergeMap normalizeScenario w dialogResult =
     (let actions = [UploadActions_closeDialog] in
      case dialogResult of
        None \<Rightarrow> (actions, w)
      | Some (Scenario content) \<Rightarrow>
          (let n = normalizeScenario content (now w);
               w' = (if injectedRoutes (normalizedScenario n)
                     then warning w scenario_warning else w)
           in (actions @ [DispatcherActions_uploadScenarioSuccess (normalizedScenario n)], w'))
      | Some (ScenarioSolutionPair scenario' solution') \<Rightarrow>
          (let requestTime' = now w;
               n = normalizeScenario scenario' requestTime';
               requestedShipmentIds' =
                 map shipment_id (filter (\<lambda>s. js_not (shipment_ignore s)) (shipments n));
               requestedVehicleIds' =
                 map vehicle_id (filter (\<lambda>v. js_not (vehicle_ignore v)) (vehicles n));
               w' = (if injectedRoutes (normalizedScenario n)
                     then warning w pair_warning else w)
           in (actions
                 @ [DispatcherActions_uploadScenarioSuccess (normalizedScenario n)]
                 @ [DispatcherApiActions_applySolution
                      \<lparr> elapsedSolution =
                          \<lparr> elapsedSolution.scenario = normalizedScenario n,
                            solution = solution',
                            elapsedTime = 0,
                            requestTime = requestTime',
                            timeOfResponse = requestTime' \<rparr>,
                        requestedShipmentIds = requestedShipmentIds',
                        requestedVehicleIds = requestedVehicleIds' \<rparr>],
               w'))
      | Some (OtherUploadType content) \<Rightarrow> (actions, w))"

subsection \<open>loadScenario$\<close>

text \<open>
  The three \<open>forEach\<close> loops, each pushing onto the array it was given.
\<close>

fun push_selectedShipments :: "int list \<Rightarrow> shipment list \<Rightarrow> int list" where
  "push_selectedShipments selected [] = selected"
| "push_selectedShipments selected (shipment # rest) =
     push_selectedShipments
       (if js_not (shipment_ignore shipment) then selected @ [shipment_id shipment] else selected)
       rest"

fun push_selectedVehicles :: "int list \<Rightarrow> vehicle list \<Rightarrow> int list" where
  "push_selectedVehicles selected [] = selected"
| "push_selectedVehicles selected (vehicle # rest) =
     push_selectedVehicles
       (if js_not (vehicle_ignore vehicle) then selected @ [vehicle_id vehicle] else selected)
       rest"

fun push_selectedVehicleOperators :: "int list \<Rightarrow> vehicleOperator list \<Rightarrow> int list" where
  "push_selectedVehicleOperators selected [] = selected"
| "push_selectedVehicleOperators selected (vehicleOperator # rest) =
     push_selectedVehicleOperators (selected @ [vehicleOperator_id vehicleOperator]) rest"

text \<open>The callback of \<open>concatMap\<close>, run on the scenario of an \<open>uploadScenarioSuccess\<close>.\<close>

definition loadScenario_concatMap ::
  "normalizeScenario_fn \<Rightarrow> world \<Rightarrow> scenario \<Rightarrow> action list" where
  "loadScenario_concatMap normalizeScenario w scenario' =
     (let changeTime' = now w;
          n = normalizeScenario scenario' changeTime';
          selectedShipments' = push_selectedShipments [] (shipments n);
          selectedVehicles' = push_selectedVehicles [] (vehicles n);
          selectedVehicleOperators' = push_selectedVehicleOperators [] (vehicleOperators n)
      in [DispatcherActions_loadScenario
            \<lparr> loadScenario_props.shipments = shipments n,
              loadScenario_props.vehicles = vehicles n,
              loadScenario_props.vehicleOperators = vehicleOperators n,
              loadScenario_props.visitRequests = visitRequests n,
              selectedShipments = selectedShipments',
              selectedVehicles = selectedVehicles',
              selectedVehicleOperators = selectedVehicleOperators',
              changeTime = changeTime' \<rparr>,
          RequestSettingsActions_setRequestSettings
            \<lparr> setRequestSettings_props.firstSolutionRoutes = firstSolutionRoutes n,
              setRequestSettings_props.injectedModelConstraint = injectedModelConstraint n,
              setRequestSettings_props.injectedSolution = injectedSolution n,
              setRequestSettings_props.label = label n,
              setRequestSettings_props.searchMode = searchMode n,
              setRequestSettings_props.solvingMode = solvingMode n,
              setRequestSettings_props.timeout = timeout n,
              setRequestSettings_props.traffic = traffic n,
              setRequestSettings_props.allowLargeDeadlineDespiteInterruptionRisk =
                allowLargeDeadlineDespiteInterruptionRisk n,
              setRequestSettings_props.interpretInjectedSolutionsUsingLabels =
                interpretInjectedSolutionsUsingLabels n,
              setRequestSettings_props.populateTransitionPolylines = populateTransitionPolylines n,
              setRequestSettings_props.useGeodesicDistances = useGeodesicDistances n,
              setRequestSettings_props.geodesicMetersPerSecond = geodesicMetersPerSecond n \<rparr>,
          ShipmentModelActions_setShipmentModel (shipmentModel n)])"

text \<open>The effect on one action of the stream: \<open>ofType\<close>, then \<open>concatMap\<close>.\<close>

definition loadScenario_effect ::
  "normalizeScenario_fn \<Rightarrow> world \<Rightarrow> action \<Rightarrow> action list" where
  "loadScenario_effect normalizeScenario w a =
     (case a of
        DispatcherActions_uploadScenarioSuccess scenario' \<Rightarrow>
          loadScenario_concatMap normalizeScenario w scenario'
      | _ \<Rightarrow> [])"

subsection \<open>From an upload to loadScenario$\<close>




subsection \<open>When the dialogs open\<close>

text \<open>
  Modelled from the spec: the declaration of \<open>Modal\<close> is not among the sources. The
  effects name two of its members, \<open>Modal.Upload\<close> and \<open>Modal.CsvUpload\<close>, which
  are also the ids of the two dialogs; every other value is \<open>Modal_Other\<close>.
\<close>

datatype modal =
    Modal_Upload
  | Modal_CsvUpload
  | Modal_Other string

text \<open>
  The state the two dialog effects read and change before a dialog closes: the modal the
  store has selected (\<open>fromUI.selectModal\<close>), the ids of the dialogs \<open>MatDialog\<close> has
  open, and for each \<open>exhaustMap\<close> whether the \<open>afterClosed()\<close> it subscribed to is
  still to complete.
\<close>

record ui_state =
  selectModal :: "modal option"
  openDialogs :: "modal list"
  csvDialog_pending :: bool
  uploadDialog_pending :: bool

definition getDialogById :: "ui_state \<Rightarrow> modal \<Rightarrow> modal option" where
  "getDialogById u i = find (\<lambda>d. d = i) (openDialogs u)"

definition dialog_open :: "ui_state \<Rightarrow> modal \<Rightarrow> ui_state" where
  "dialog_open u i = u\<lparr>openDialogs := openDialogs u @ [i]\<rparr>"

definition dialog_close :: "ui_state \<Rightarrow> modal \<Rightarrow> ui_state" where
  "dialog_close u i = u\<lparr>openDialogs := remove1 i (openDialogs u)\<rparr>"

text \<open>
  One action of the stream through \<open>ofType\<close>, \<open>mergeMapTo\<close> (the selected modal, read
  once), \<open>filter\<close> and \<open>exhaustMap\<close> (which drops the action while its dialog has not
  closed).
\<close>

definition openCsvDialog_trigger :: "ui_state \<Rightarrow> action \<Rightarrow> ui_state" where
  "openCsvDialog_trigger u a =
     (case a of
        UploadActions_openCsvDialog \<Rightarrow>
          (let modal = selectModal u in
           if modal = Some Modal_CsvUpload \<and> getDialogById u Modal_CsvUpload = None
           then (if csvDialog_pending u then u
                 else (dialog_open u Modal_CsvUpload)\<lparr>csvDialog_pending := True\<rparr>)
           else u)
      | _ \<Rightarrow> u)"

definition openDialog_filter :: "ui_state \<Rightarrow> ui_state" where
  "openDialog_filter u =
     (let modal = selectModal u in
      if modal = Some Modal_Upload \<and> getDialogById u Modal_Upload = None
      then (if uploadDialog_pending u then u
            else (dialog_open u Modal_Upload)\<lparr>uploadDialog_pending := True\<rparr>)
      else u)"

definition openDialog_trigger :: "ui_state \<Rightarrow> action \<Rightarrow> ui_state" where
  "openDialog_trigger u a =
     (case a of
        UploadActions_openDialog \<Rightarrow> openDialog_filter u
      | WelcomePageActions_openUploadDialog \<Rightarrow> openDialog_filter u
      | _ \<Rightarrow> u)"

text \<open>
  What happens around the effects: an action is dispatched (both effects see it), a
  dialog closes (its \<open>afterClosed()\<close> emits and completes), or the store selects
  another modal.
\<close>

datatype event =
    Dispatched action
  | CsvDialogClosed
  | UploadDialogClosed
  | ModalSelected "modal option"

fun ui_step :: "ui_state \<Rightarrow> event \<Rightarrow> ui_state" where
  "ui_step u (Dispatched a) = openDialog_trigger (openCsvDialog_trigger u a) a"
| "ui_step u CsvDialogClosed = (dialog_close u Modal_CsvUpload)\<lparr>csvDialog_pending := False\<rparr>"
| "ui_step u UploadDialogClosed = (dialog_close u Modal_Upload)\<lparr>uploadDialog_pending := False\<rparr>"
| "ui_step u (ModalSelected m) = u\<lparr>selectModal := m\<rparr>"

text \<open>A dialog id is held by at most one open dialog.\<close>

definition opened_at_most_once :: "ui_state \<Rightarrow> modal \<Rightarrow> bool" where
  "opened_at_most_once u i = (count_list (openDialogs u) i \<le> 1)"

section \<open>Filtering experimental fields from a CSV\<close>

text \<open>
  A CSV as the parser reads it: the names of its columns (the first line) and the rows
  of cells below.
\<close>

record csv =
  csv_fields :: "string list"
  csv_data :: "string list list"

text \<open>The cells of a row whose column is not one of the experimental fields.\<close>

definition filter_cells :: "string list \<Rightarrow> string list \<Rightarrow> string list \<Rightarrow> string list" where
  "filter_cells experimentalFields columns row =
     map snd (filter (\<lambda>(f, c). f \<notin> set experimentalFields) (zip columns row))"

text \<open>
  Modelled from the spec: \<open>CsvService.filterExperimentalFieldsFromCsv\<close> is not among the
  sources, only its tests are. With experimental features allowed the CSV is returned
  as it is; otherwise every column named in \<open>experimentalFields\<close> is removed from the
  column names and from every row, and the rows stay.
\<close>

definition filterExperimentalFieldsFromCsv :: "csv \<Rightarrow> bool \<Rightarrow> string list \<Rightarrow> csv" where
  "filterExperimentalFieldsFromCsv c allowExperimentalFeatures experimentalFields =
     (if allowExperimentalFeatures then c
      else \<lparr> csv_fields = filter (\<lambda>f. f \<notin> set experimentalFields) (csv_fields c),
             csv_data = map (filter_cells experimentalFields (csv_fields c)) (csv_data c) \<rparr>)"

text \<open>The value of a row in a column, by the column's name.\<close>

definition cell :: "string list \<Rightarrow> string list \<Rightarrow> string \<Rightarrow> string option" where
  "cell columns row f = map_of (zip columns row) f"

section \<open>Sample inputs\<close>

definition sample_scenario :: scenario where
  "sample_scenario =
     \<lparr> injectedSolutionConstraint = Some \<lparr> routes = Some [], constraint_rest = JNull \<rparr>,
       scenario_rest = JObj [(''label'', JStr ''demo'')] \<rparr>"

definition sample_shipments :: "shipment list" where
  "sample_shipments =
     [\<lparr> shipment_id = 1, shipment_ignore = None, shipment_rest = JNull \<rparr>,
      \<lparr> shipment_id = 2, shipment_ignore = Some True, shipment_rest = JNull \<rparr>,
      \<lparr> shipment_id = 3, shipment_ignore = Some False, shipment_rest = JNull \<rparr>]"

definition sample_vehicles :: "vehicle list" where
  "sample_vehicles =
     [\<lparr> vehicle_id = 1, vehicle_ignore = Some True, vehicle_rest = JNull \<rparr>,
      \<lparr> vehicle_id = 2, vehicle_ignore = None, vehicle_rest = JNull \<rparr>]"

definition sample_vehicleOperators :: "vehicleOperator list" where
  "sample_vehicleOperators =
     [\<lparr> vehicleOperator_id = 1, vehicleOperator_rest = JNull \<rparr>,
      \<lparr> vehicleOperator_id = 2, vehicleOperator_rest = JObj [(''ignore'', JBool True)] \<rparr>]"

text \<open>
  A stand-in for the normalization service in the closed instances: it returns the
  scenario as its normalized scenario, the sample entities, and the timestamp as label.
\<close>

definition sample_normalizeScenario :: normalizeScenario_fn where
  "sample_normalizeScenario s t =
     \<lparr> firstSolutionRoutes = JNull,
       injectedModelConstraint = JNull,
       injectedSolution = JBool False,
       label = JNum t,
       searchMode = JNum 1,
       shipments = sample_shipments,
       shipmentModel = scenario_rest s,
       solvingMode = JNum 0,
       timeout = JStr ''30s'',
       traffic = JBool False,
       vehicles = sample_vehicles,
       vehicleOperators = sample_vehicleOperators,
       visitRequests = JArr [],
       allowLargeDeadlineDespiteInterruptionRisk = JBool False,
       interpretInjectedSolutionsUsingLabels = JBool False,
       populateTransitionPolylines = JBool True,
       useGeodesicDistances = JBool False,
       geodesicMetersPerSecond = JNum 10,
       normalizedScenario = s \<rparr>"



definition sample_world :: world where
  "sample_world = \<lparr> now = 1700000000000, warnings = [] \<rparr>"

definition sample_ui :: ui_state where
  "sample_ui =
     \<lparr> selectModal = Some Modal_Upload, openDialogs = [],
       csvDialog_pending = False, uploadDialog_pending = False \<rparr>"

definition sample_csv_ui :: ui_state where
  "sample_csv_ui =
     \<lparr> selectModal = Some Modal_CsvUpload, openDialogs = [Modal_Other ''settings''],
       csvDialog_pending = False, uploadDialog_pending = False \<rparr>"

text \<open>The table of the service's first test.\<close>

definition sample_csv :: csv where
  "sample_csv =
     \<lparr> csv_fields = [''column1'', ''column2'', ''column3''],
       csv_data = [[''value1'', ''value2'', ''value3'']] \<rparr>"

section \<open>Properties\<close>

subsection \<open>The loops of loadScenario$\<close>

lemma js_not_iff: "js_not b \<longleftrightarrow> b \<noteq> Some True"
  by (cases b) (simp_all add: js_not_def)

lemma push_selectedShipments_eq:
  "push_selectedShipments selected xs =
     selected @ map shipment_id (filter (\<lambda>s. js_not (shipment_ignore s)) xs)"
  by (induction xs arbitrary: selected) simp_all

lemma push_selectedVehicles_eq:
  "push_selectedVehicles selected xs =
     selected @ map vehicle_id (filter (\<lambda>v. js_not (vehicle_ignore v)) xs)"
  by (induction xs arbitrary: selected) simp_all

lemma push_selectedVehicleOperators_eq:
  "push_selectedVehicleOperators selected xs = selected @ map vehicleOperator_id xs"
  by (induction xs arbitrary: selected) simp_all

subsection \<open>Selections\<close>

text \<open>
  Claim C1. The \<open>loadScenario\<close> action that loadScenario$ dispatches selects exactly
  the ids of the shipments, and of the vehicles, it carries whose \<open>ignore\<close> is not
  set, in their order; and the \<open>applySolution\<close> action of a scenario and solution pair
  requests exactly the ids of the normalized shipments and vehicles whose \<open>ignore\<close> is
  not set.
\<close>

theorem ignored_entities_excluded:
  "(\<exists>props settings model.
      loadScenario_effect normalizeScenario w (DispatcherActions_uploadScenarioSuccess s) =
        [DispatcherActions_loadScenario props,
         RequestSettingsActions_setRequestSettings settings,
         ShipmentModelActions_setShipmentModel model] \<and>
      loadScenario_props.shipments props = shipments (normalizeScenario s (now w)) \<and>
      loadScenario_props.vehicles props = vehicles (normalizeScenario s (now w)) \<and>
      selectedShipments props =
        map shipment_id
          (filter (\<lambda>x. shipment_ignore x \<noteq> Some True) (loadScenario_props.shipments props)) \<and>
      selectedVehicles props =
        map vehicle_id
          (filter (\<lambda>x. vehicle_ignore x \<noteq> Some True) (loadScenario_props.vehicles props))) \<and>
   (\<exists>props.
      fst (openDialog_mergeMap normalizeScenario w (Some (ScenarioSolutionPair s sol))) =
        [UploadActions_closeDialog,
         DispatcherActions_uploadScenarioSuccess (normalizedScenario (normalizeScenario s (now w))),
         DispatcherApiActions_applySolution props] \<and>
      requestedShipmentIds props =
        map shipment_id
          (filter (\<lambda>x. shipment_ignore x \<noteq> Some True) (shipments (normalizeScenario s (now w)))) \<and>
      requestedVehicleIds props =
        map vehicle_id
          (filter (\<lambda>x. vehicle_ignore x \<noteq> Some True) (vehicles (normalizeScenario s (now w)))))"
proof (rule conjI)
  show "\<exists>props settings model.
      loadScenario_effect normalizeScenario w (DispatcherActions_uploadScenarioSuccess s) =
        [DispatcherActions_loadScenario props,
         RequestSettingsActions_setRequestSettings settings,
         ShipmentModelActions_setShipmentModel model] \<and>
      loadScenario_props.shipments props = shipments (normalizeScenario s (now w)) \<and>
      loadScenario_props.vehicles props = vehicles (normalizeScenario s (now w)) \<and>
      selectedShipments props =
        map shipment_id
          (filter (\<lambda>x. shipment_ignore x \<noteq> Some True) (loadScenario_props.shipments props)) \<and>
      selectedVehicles props =
        map vehicle_id
          (filter (\<lambda>x. vehicle_ignore x \<noteq> Some True) (loadScenario_props.vehicles props))"
    by (simp add: loadScenario_effect_def loadScenario_concatMap_def Let_def
        push_selectedShipments_eq push_selectedVehicles_eq js_not_iff)
next
  show "\<exists>props.
      fst (openDialog_mergeMap normalizeScenario w (Some (ScenarioSolutionPair s sol))) =
        [UploadActions_closeDialog,
         DispatcherActions_uploadScenarioSuccess (normalizedScenario (normalizeScenario s (now w))),
         DispatcherApiActions_applySolution props] \<and>
      requestedShipmentIds props =
        map shipment_id
          (filter (\<lambda>x. shipment_ignore x \<noteq> Some True) (shipments (normalizeScenario s (now w)))) \<and>
      requestedVehicleIds props =
        map vehicle_id
          (filter (\<lambda>x. vehicle_ignore x \<noteq> Some True) (vehicles (normalizeScenario s (now w))))"
    by (simp add: openDialog_mergeMap_def Let_def js_not_iff)
qed

text \<open>
  On the sample, shipment 2 and vehicle 1 are ignored: shipments 1 and 3 and vehicle 2
  are selected, and requested.
\<close>

theorem ignored_entities_excluded_witness:
  "(\<exists>props settings model.
      loadScenario_effect sample_normalizeScenario sample_world
          (DispatcherActions_uploadScenarioSuccess sample_scenario) =
        [DispatcherActions_loadScenario props,
         RequestSettingsActions_setRequestSettings settings,
         ShipmentModelActions_setShipmentModel model] \<and>
      selectedShipments props = [1, 3] \<and>
      selectedVehicles props = [2]) \<and>
   (\<exists>props.
      fst (openDialog_mergeMap sample_normalizeScenario sample_world
             (Some (ScenarioSolutionPair sample_scenario JNull))) =
        [UploadActions_closeDialog,
         DispatcherActions_uploadScenarioSuccess sample_scenario,
         DispatcherApiActions_applySolution props] \<and>
      requestedShipmentIds props = [1, 3] \<and>
      requestedVehicleIds props = [2])"
  using ignored_entities_excluded [of sample_normalizeScenario sample_world sample_scenario JNull]
  by (auto simp add: sample_normalizeScenario_def sample_shipments_def sample_vehicles_def)

text \<open>
  Claim C8. The \<open>loadScenario\<close> action that loadScenario$ dispatches selects the id of
  every vehicle operator it carries, in their order: no flag of a vehicle operator is
  read.
\<close>

theorem vehicleOperators_all_selected:
  "\<exists>props settings model.
     loadScenario_effect normalizeScenario w (DispatcherActions_uploadScenarioSuccess s) =
       [DispatcherActions_loadScenario props,
        RequestSettingsActions_setRequestSettings settings,
        ShipmentModelActions_setShipmentModel model] \<and>
     loadScenario_props.vehicleOperators props = vehicleOperators (normalizeScenario s (now w)) \<and>
     selectedVehicleOperators props =
       map vehicleOperator_id (loadScenario_props.vehicleOperators props)"
  by (simp add: loadScenario_effect_def loadScenario_concatMap_def Let_def
      push_selectedVehicleOperators_eq)

theorem vehicleOperators_all_selected_witness:
  "\<exists>props settings model.
     loadScenario_effect sample_normalizeScenario sample_world
         (DispatcherActions_uploadScenarioSuccess sample_scenario) =
       [DispatcherActions_loadScenario props,
        RequestSettingsActions_setRequestSettings settings,
        ShipmentModelActions_setShipmentModel model] \<and>
     loadScenario_props.vehicleOperators props = sample_vehicleOperators \<and>
     selectedVehicleOperators props = [1, 2]"
  using vehicleOperators_all_selected [of sample_normalizeScenario sample_world sample_scenario]
  by (auto simp add: sample_normalizeScenario_def sample_vehicleOperators_def)

subsection \<open>The actions dispatched\<close>

text \<open>
  Claim C3. On an \<open>uploadScenarioSuccess\<close> action, loadScenario$ dispatches exactly
  three actions, in this order: \<open>loadScenario\<close> (with the time of the change),
  \<open>setRequestSettings\<close> and \<open>setShipmentModel\<close> (with the normalized shipment model).
\<close>

theorem loadScenario_three_actions:
  "\<exists>props settings.
     loadScenario_effect normalizeScenario w (DispatcherActions_uploadScenarioSuccess s) =
       [DispatcherActions_loadScenario props,
        RequestSettingsActions_setRequestSettings settings,
        ShipmentModelActions_setShipmentModel (shipmentModel (normalizeScenario s (now w)))] \<and>
     changeTime props = now w \<and>
     length (loadScenario_effect normalizeScenario w (DispatcherActions_uploadScenarioSuccess s)) = 3"
  by (simp add: loadScenario_effect_def loadScenario_concatMap_def Let_def)

theorem loadScenario_three_actions_witness:
  "\<exists>props settings.
     loadScenario_effect sample_normalizeScenario sample_world
         (DispatcherActions_uploadScenarioSuccess sample_scenario) =
       [DispatcherActions_loadScenario props,
        RequestSettingsActions_setRequestSettings settings,
        ShipmentModelActions_setShipmentModel (JObj [(''label'', JStr ''demo'')])] \<and>
     changeTime props = 1700000000000"
  using loadScenario_three_actions [of sample_normalizeScenario sample_world sample_scenario]
  by (auto simp add: sample_normalizeScenario_def sample_scenario_def sample_world_def)

text \<open>
  Claim C4. On a truthy result of the CSV dialog, openCsvDialog$ dispatches exactly three
  actions, in this order: \<open>closeCsvDialog\<close>, \<open>setTimezone\<close> with the result's timezone,
  and \<open>uploadScenarioSuccess\<close> with the result's scenario.
\<close>

theorem openCsvDialog_dispatches:
  "openCsvDialog_mergeMap (Some r) =
     [UploadActions_closeCsvDialog,
      ConfigActions_setTimezone (timezone r),
      DispatcherActions_uploadScenarioSuccess (csvDialogResult.scenario r)]"
  by (simp add: openCsvDialog_mergeMap_def)

theorem openCsvDialog_dispatches_witness:
  "openCsvDialog_mergeMap (Some \<lparr> timezone = JStr ''UTC'', scenario = sample_scenario \<rparr>) =
     [UploadActions_closeCsvDialog,
      ConfigActions_setTimezone (JStr ''UTC''),
      DispatcherActions_uploadScenarioSuccess sample_scenario]"
  using openCsvDialog_dispatches [of "\<lparr> timezone = JStr ''UTC'', scenario = sample_scenario \<rparr>"]
  by simp

text \<open>
  Claim C9. When the CSV dialog closes with a falsy result, openCsvDialog$ dispatches no
  action; when the upload dialog closes with a falsy result, openDialog$ dispatches
  exactly one action, \<open>closeDialog\<close>, and gives no warning.
\<close>

theorem cancelled_dialogs:
  "openCsvDialog_mergeMap None = [] \<and>
   openDialog_mergeMap normalizeScenario w None = ([UploadActions_closeDialog], w)"
  by (simp add: openCsvDialog_mergeMap_def openDialog_mergeMap_def)

theorem cancelled_dialogs_witness:
  "openCsvDialog_mergeMap None = [] \<and>
   openDialog_mergeMap sample_normalizeScenario sample_world None =
     ([UploadActions_closeDialog], sample_world)"
  using cancelled_dialogs [of sample_normalizeScenario sample_world]
  by simp

subsection \<open>The upload dialog's result\<close>



text \<open>
  Claim C7. For a scenario and solution pair, the \<open>applySolution\<close> action carries the
  solution of the dialog result as it is, whatever the normalization does, next to the
  normalized scenario; its elapsed time is 0, its request time is the time of the upload
  and its time of response equals its request time.
\<close>

theorem solution_passed_through:
  "\<exists>props.
     fst (openDialog_mergeMap normalizeScenario w (Some (ScenarioSolutionPair s sol))) =
       [UploadActions_closeDialog,
        DispatcherActions_uploadScenarioSuccess (normalizedScenario (normalizeScenario s (now w))),
        DispatcherApiActions_applySolution props] \<and>
     solution (elapsedSolution props) = sol \<and>
     elapsedSolution.scenario (elapsedSolution props) =
       normalizedScenario (normalizeScenario s (now w)) \<and>
     elapsedTime (elapsedSolution props) = 0 \<and>
     requestTime (elapsedSolution props) = now w \<and>
     timeOfResponse (elapsedSolution props) = requestTime (elapsedSolution props)"
  by (simp add: openDialog_mergeMap_def Let_def)

theorem solution_passed_through_witness:
  "\<exists>props.
     fst (openDialog_mergeMap sample_normalizeScenario sample_world
            (Some (ScenarioSolutionPair sample_scenario (JObj [(''routes'', JArr [])])))) =
       [UploadActions_closeDialog,
        DispatcherActions_uploadScenarioSuccess sample_scenario,
        DispatcherApiActions_applySolution props] \<and>
     solution (elapsedSolution props) = JObj [(''routes'', JArr [])] \<and>
     elapsedTime (elapsedSolution props) = 0 \<and>
     requestTime (elapsedSolution props) = 1700000000000 \<and>
     timeOfResponse (elapsedSolution props) = 1700000000000"
  using solution_passed_through
    [of sample_normalizeScenario sample_world sample_scenario "JObj [(''routes'', JArr [])]"]
  by (auto simp add: sample_normalizeScenario_def sample_world_def)

subsection \<open>When a dialog opens\<close>

lemma getDialogById_None: "getDialogById u i = None \<longleftrightarrow> i \<notin> set (openDialogs u)"
  by (auto simp add: getDialogById_def find_None_iff)

lemma once_csv_trigger:
  "opened_at_most_once u i \<Longrightarrow> opened_at_most_once (openCsvDialog_trigger u a) i"
  by (cases a)
    (auto simp add: openCsvDialog_trigger_def opened_at_most_once_def dialog_open_def Let_def
      getDialogById_None count_list_0_iff)

lemma once_filter:
  "opened_at_most_once u i \<Longrightarrow> opened_at_most_once (openDialog_filter u) i"
  by (auto simp add: openDialog_filter_def opened_at_most_once_def dialog_open_def Let_def
      getDialogById_None count_list_0_iff)

lemma once_trigger:
  "opened_at_most_once u i \<Longrightarrow> opened_at_most_once (openDialog_trigger u a) i"
  by (cases a) (simp_all add: openDialog_trigger_def once_filter)

lemma count_list_remove1_le: "count_list (remove1 x xs) y \<le> count_list xs y"
  by (induction xs) auto

lemma once_close:
  "opened_at_most_once u i \<Longrightarrow> opened_at_most_once (dialog_close u j) i"
  using count_list_remove1_le [of j "openDialogs u" i]
  by (simp add: opened_at_most_once_def dialog_close_def)

lemma once_step:
  "opened_at_most_once u i \<Longrightarrow> opened_at_most_once (ui_step u e) i"
proof (cases e)
  case (Dispatched a)
  assume "opened_at_most_once u i"
  then show ?thesis
    using Dispatched by (simp add: once_trigger once_csv_trigger)
next
  case CsvDialogClosed
  assume "opened_at_most_once u i"
  then have "opened_at_most_once (dialog_close u Modal_CsvUpload) i"
    by (rule once_close)
  then show ?thesis
    using CsvDialogClosed by (simp add: opened_at_most_once_def)
next
  case UploadDialogClosed
  assume "opened_at_most_once u i"
  then have "opened_at_most_once (dialog_close u Modal_Upload) i"
    by (rule once_close)
  then show ?thesis
    using UploadDialogClosed by (simp add: opened_at_most_once_def)
next
  case (ModalSelected m)
  assume "opened_at_most_once u i"
  then show ?thesis
    using ModalSelected by (simp add: opened_at_most_once_def)
qed

lemma once_run:
  "opened_at_most_once u i \<Longrightarrow> opened_at_most_once (foldl ui_step u es) i"
  by (induction es arbitrary: u) (simp_all add: once_step)

lemma openDialog_filter_opens:
  "openDialogs (openDialog_filter u) \<noteq> openDialogs u \<Longrightarrow>
     selectModal u = Some Modal_Upload \<and> getDialogById u Modal_Upload = None \<and>
     openDialogs (openDialog_filter u) = openDialogs u @ [Modal_Upload]"
  by (auto simp add: openDialog_filter_def dialog_open_def Let_def split: if_splits)

text \<open>
  Claim C6. If openDialog$ opens a dialog on an action, the action is one of its two
  types, the selected modal is \<open>Modal.Upload\<close>, no open dialog has the id
  \<open>Modal.Upload\<close>, and the dialog opened is the one with that id; likewise for
  openCsvDialog$ and \<open>Modal.CsvUpload\<close>. And along any sequence of dispatched actions,
  closed dialogs and changes of the selected modal, neither id is ever held by two open
  dialogs.
\<close>

theorem dialog_opens_on_matching_state:
  "(openDialogs (openDialog_trigger u a) \<noteq> openDialogs u \<longrightarrow>
      (a = UploadActions_openDialog \<or> a = WelcomePageActions_openUploadDialog) \<and>
      selectModal u = Some Modal_Upload \<and>
      getDialogById u Modal_Upload = None \<and>
      Modal_Upload \<notin> set (openDialogs u) \<and>
      openDialogs (openDialog_trigger u a) = openDialogs u @ [Modal_Upload]) \<and>
   (openDialogs (openCsvDialog_trigger u a) \<noteq> openDialogs u \<longrightarrow>
      a = UploadActions_openCsvDialog \<and>
      selectModal u = Some Modal_CsvUpload \<and>
      getDialogById u Modal_CsvUpload = None \<and>
      Modal_CsvUpload \<notin> set (openDialogs u) \<and>
      openDialogs (openCsvDialog_trigger u a) = openDialogs u @ [Modal_CsvUpload]) \<and>
   (opened_at_most_once u Modal_Upload \<and> opened_at_most_once u Modal_CsvUpload \<longrightarrow>
      opened_at_most_once (foldl ui_step u es) Modal_Upload \<and>
      opened_at_most_once (foldl ui_step u es) Modal_CsvUpload)"
proof (intro conjI impI)
  assume changed: "openDialogs (openDialog_trigger u a) \<noteq> openDialogs u"
  then show "a = UploadActions_openDialog \<or> a = WelcomePageActions_openUploadDialog"
    by (cases a) (simp_all add: openDialog_trigger_def)
  then have "openDialog_trigger u a = openDialog_filter u"
    by (auto simp add: openDialog_trigger_def)
  with changed have opened: "openDialogs (openDialog_filter u) \<noteq> openDialogs u"
    and eq: "openDialogs (openDialog_trigger u a) = openDialogs (openDialog_filter u)"
    by simp_all
  from openDialog_filter_opens [OF opened]
  show "selectModal u = Some Modal_Upload" and "getDialogById u Modal_Upload = None"
    and "Modal_Upload \<notin> set (openDialogs u)"
    and "openDialogs (openDialog_trigger u a) = openDialogs u @ [Modal_Upload]"
    using eq by (simp_all add: getDialogById_None)
next
  assume changed: "openDialogs (openCsvDialog_trigger u a) \<noteq> openDialogs u"
  then show is_open: "a = UploadActions_openCsvDialog"
    by (cases a) (simp_all add: openCsvDialog_trigger_def)
  from changed is_open
  show "selectModal u = Some Modal_CsvUpload" and "getDialogById u Modal_CsvUpload = None"
    and "Modal_CsvUpload \<notin> set (openDialogs u)"
    and "openDialogs (openCsvDialog_trigger u a) = openDialogs u @ [Modal_CsvUpload]"
    by (auto simp add: openCsvDialog_trigger_def dialog_open_def Let_def getDialogById_None
        split: if_splits)
next
  assume "opened_at_most_once u Modal_Upload \<and> opened_at_most_once u Modal_CsvUpload"
  then show "opened_at_most_once (foldl ui_step u es) Modal_Upload"
    and "opened_at_most_once (foldl ui_step u es) Modal_CsvUpload"
    by (simp_all add: once_run)
qed

text \<open>
  With \<open>Modal.Upload\<close> selected and no dialog open, the first \<open>openDialog\<close> opens the
  upload dialog and a second one, from the welcome page, opens nothing.
\<close>

theorem dialog_opens_on_matching_state_witness:
  "openDialogs (openDialog_trigger sample_ui UploadActions_openDialog) \<noteq> openDialogs sample_ui \<and>
   selectModal sample_ui = Some Modal_Upload \<and>
   openDialogs (openDialog_trigger sample_ui UploadActions_openDialog) = [Modal_Upload] \<and>
   openDialogs (openCsvDialog_trigger sample_csv_ui UploadActions_openCsvDialog) \<noteq>
     openDialogs sample_csv_ui \<and>
   openDialogs (openCsvDialog_trigger sample_csv_ui UploadActions_openCsvDialog) =
     [Modal_Other ''settings'', Modal_CsvUpload] \<and>
   opened_at_most_once sample_ui Modal_Upload \<and>
   opened_at_most_once sample_ui Modal_CsvUpload \<and>
   opened_at_most_once
     (foldl ui_step sample_ui
        [Dispatched UploadActions_openDialog, Dispatched WelcomePageActions_openUploadDialog])
     Modal_Upload \<and>
   openDialogs
     (foldl ui_step sample_ui
        [Dispatched UploadActions_openDialog, Dispatched WelcomePageActions_openUploadDialog]) =
     [Modal_Upload]"
proof -
  have upload: "openDialogs (openDialog_trigger sample_ui UploadActions_openDialog) \<noteq>
      openDialogs sample_ui"
    by (simp add: openDialog_trigger_def openDialog_filter_def getDialogById_def dialog_open_def
        sample_ui_def)
  have csv: "openDialogs (openCsvDialog_trigger sample_csv_ui UploadActions_openCsvDialog) \<noteq>
      openDialogs sample_csv_ui"
    by (simp add: openCsvDialog_trigger_def getDialogById_def dialog_open_def sample_csv_ui_def)
  have once: "opened_at_most_once sample_ui Modal_Upload \<and>
      opened_at_most_once sample_ui Modal_CsvUpload"
    by (simp add: opened_at_most_once_def sample_ui_def)
  have run: "openDialogs
     (foldl ui_step sample_ui
        [Dispatched UploadActions_openDialog, Dispatched WelcomePageActions_openUploadDialog]) =
     [Modal_Upload]"
    by (simp add: openDialog_trigger_def openCsvDialog_trigger_def openDialog_filter_def
        getDialogById_def dialog_open_def sample_ui_def)
  have fields: "selectModal sample_ui = Some Modal_Upload" "openDialogs sample_ui = []"
    "openDialogs sample_csv_ui = [Modal_Other ''settings'']"
    by (simp_all add: sample_ui_def sample_csv_ui_def)
  show ?thesis
    using upload csv once run fields
      dialog_opens_on_matching_state [of sample_ui UploadActions_openDialog
        "[Dispatched UploadActions_openDialog, Dispatched WelcomePageActions_openUploadDialog]"]
      dialog_opens_on_matching_state [of sample_csv_ui UploadActions_openCsvDialog "[]"]
    by simp
qed

subsection \<open>From an upload to the loaded scenario\<close>













subsection \<open>The CSV filter\<close>

lemma zip_filter_cells:
  "zip (filter P columns) (map snd (filter (\<lambda>(f, c). P f) (zip columns row))) =
     filter (\<lambda>(f, c). P f) (zip columns row)"
proof (induction columns arbitrary: row)
  case Nil
  then show ?case by simp
next
  case (Cons f fs)
  then show ?case by (cases row) simp_all
qed

lemma map_of_filter_key:
  "map_of (filter (\<lambda>(f, c). P f) xs) k = (if P k then map_of xs k else None)"
  by (induction xs) auto

lemma cell_filter_cells:
  "cell (filter (\<lambda>f. f \<notin> set ef) columns) (filter_cells ef columns row) k =
     (if k \<in> set ef then None else cell columns row k)"
  by (simp add: cell_def filter_cells_def zip_filter_cells [where P = "\<lambda>f. f \<notin> set ef"]
      map_of_filter_key [where P = "\<lambda>f. f \<notin> set ef"])

text \<open>
  Claim C10. With experimental features allowed the filter returns the CSV it was given.
  With them not allowed it returns a CSV with the same number of rows, whose columns are
  the given ones less the experimental fields, and in which every row has no value in an
  experimental field and the value it had in every other column.
\<close>

theorem filterExperimentalFieldsFromCsv_spec:
  "filterExperimentalFieldsFromCsv c True experimentalFields = c \<and>
   length (csv_data (filterExperimentalFieldsFromCsv c False experimentalFields)) =
     length (csv_data c) \<and>
   set (csv_fields (filterExperimentalFieldsFromCsv c False experimentalFields)) =
     set (csv_fields c) - set experimentalFields \<and>
   (\<forall>i < length (csv_data c). \<forall>f.
      cell (csv_fields (filterExperimentalFieldsFromCsv c False experimentalFields))
           (csv_data (filterExperimentalFieldsFromCsv c False experimentalFields) ! i) f =
        (if f \<in> set experimentalFields then None else cell (csv_fields c) (csv_data c ! i) f))"
  by (auto simp add: filterExperimentalFieldsFromCsv_def cell_filter_cells)

theorem filterExperimentalFieldsFromCsv_spec_witness:
  "filterExperimentalFieldsFromCsv sample_csv True [''column1''] = sample_csv \<and>
   filterExperimentalFieldsFromCsv sample_csv False [''column1''] =
     \<lparr> csv_fields = [''column2'', ''column3''], csv_data = [[''value2'', ''value3'']] \<rparr> \<and>
   0 < length (csv_data sample_csv) \<and>
   cell (csv_fields (filterExperimentalFieldsFromCsv sample_csv False [''column1'']))
        (csv_data (filterExperimentalFieldsFromCsv sample_csv False [''column1'']) ! 0)
        ''column1'' = None \<and>
   cell (csv_fields (filterExperimentalFieldsFromCsv sample_csv False [''column1'']))
        (csv_data (filterExperimentalFieldsFromCsv sample_csv False [''column1'']) ! 0)
        ''column2'' = Some ''value2''"
proof -
  let ?out = "filterExperimentalFieldsFromCsv sample_csv False [''column1'']"
  have rows: "0 < length (csv_data sample_csv)"
    by (simp add: sample_csv_def)
  have filtered: "?out =
     \<lparr> csv_fields = [''column2'', ''column3''], csv_data = [[''value2'', ''value3'']] \<rparr>"
    by (simp add: filterExperimentalFieldsFromCsv_def filter_cells_def sample_csv_def)
  have before: "cell (csv_fields sample_csv) (csv_data sample_csv ! 0) ''column2'' = Some ''value2''"
    by (simp add: cell_def sample_csv_def)
  note spec = filterExperimentalFieldsFromCsv_spec [of sample_csv "[''column1'']"]
  from spec have same: "filterExperimentalFieldsFromCsv sample_csv True [''column1''] = sample_csv"
    by (rule conjunct1)
  from spec have cells: "\<forall>i < length (csv_data sample_csv). \<forall>f.
      cell (csv_fields ?out) (csv_data ?out ! i) f =
        (if f \<in> set [''column1''] then None else cell (csv_fields sample_csv) (csv_data sample_csv ! i) f)"
    by (elim conjE)
  from cells rows have at0: "cell (csv_fields ?out) (csv_data ?out ! 0) f =
        (if f \<in> set [''column1''] then None else cell (csv_fields sample_csv) (csv_data sample_csv ! 0) f)"
    for f
    by blast
  have c1: "cell (csv_fields ?out) (csv_data ?out ! 0) ''column1'' = None"
    unfolding at0 by simp
  have c2: "cell (csv_fields ?out) (csv_data ?out ! 0) ''column2'' = Some ''value2''"
    unfolding at0 before by simp
  from same filtered rows c1 c2 show ?thesis
    by (intro conjI)
qed

end
